theory Spec2Isabelle
  imports Complex_Main "HOL-Library.Sublist"
begin

section \<open>NovelReader: a shallow embedding of the two reader sources\<close>

text \<open>
  The repository holds two versions of the class \<open>NovelReader\<close>: \<open>src/reader.js\<close> and
  \<open>src/unnamed/part_000\<close>. Both are embedded. A method that exists in both files carries
  the suffix \<open>_reader\<close> (reader.js) or \<open>_part\<close> (part_000); a method that exists in one
  file only keeps its name.

  Conventions of the embedding.
  \<^item> A JavaScript string is a \<open>string\<close>; a \<open>char\<close> stands for one code unit below 256.
  \<^item> A JavaScript number that holds an index or a count is an \<open>int\<close> or a \<open>nat\<close>; a scroll
    offset or a scroll fraction is a \<open>real\<close> (rounding of doubles is not modelled).
  \<^item> \<open>this\<close> is a record that every method takes and returns.
  \<^item> \<open>localStorage\<close> is a record of its three keys; a key that is absent, or whose text
    does not parse, is \<open>None\<close>. \<open>setItem\<close> may throw (the sources catch it): the flag
    \<open>writable\<close> says whether it succeeds.
  \<^item> A thrown \<open>TypeError\<close> is the value \<open>Inl TypeError\<close>.
  \<^item> The DOM is a tree of elements and text nodes. What the browser computes and the
    sources only call (the HTML parser behind \<open>div.innerHTML = html\<close>, the layout behind
    \<open>scrollHeight\<close>, the library DOMPurify) is a parameter.
  \<^item> Toast notifications, the loading indicator, the table of contents and CSS animations
    are not modelled.
\<close>

subsection \<open>Strings\<close>

text \<open>\<open>String.prototype.trim\<close>: white space and line terminators below code 256.\<close>

definition is_ws :: "char \<Rightarrow> bool" where
  "is_ws c = (of_char c \<in> {9, 10, 11, 12, 13, 32, 160 :: nat})"

definition trim :: "string \<Rightarrow> string" where
  "trim s = rev (dropWhile is_ws (rev (dropWhile is_ws s)))"

text \<open>
  The flag \<open>i\<close> of a regular expression without the flag \<open>u\<close>: a code unit from 128 on
  never matches an ASCII letter, so comparing after lowering \<open>A\<close>..\<open>Z\<close> is exact.
\<close>

definition toLowerCase_char :: "char \<Rightarrow> char" where
  "toLowerCase_char c =
     (let n = of_char c :: nat in if 65 \<le> n \<and> n \<le> 90 then char_of (n + 32) else c)"

definition starts_with_ci :: "string \<Rightarrow> string \<Rightarrow> bool" where
  "starts_with_ci p s = (map toLowerCase_char (take (length p) s) = p)"

text \<open>
  \<open>`${n}`\<close>: the decimal numeral a template literal prints for an integer.
\<close>

definition digit :: "nat \<Rightarrow> char" where
  "digit d = ''0123456789'' ! d"

fun toString_nat :: "nat \<Rightarrow> string" where
  "toString_nat n =
     (if 10 \<le> n then toString_nat (n div 10) @ [digit (n mod 10)] else [digit n])"


subsection \<open>CONFIG\<close>

definition THEMES :: "string list" where
  "THEMES = [''light'', ''dark'', ''sepia'']"

definition FONTS :: "string list" where
  "FONTS = [''serif'', ''sans'', ''mono'']"


subsection \<open>The DOM\<close>

datatype node =
  Element string "(string \<times> string) list" "node list"
  | Text string

fun is_element :: "node \<Rightarrow> bool" where
  "is_element (Element t a cs) = True"
| "is_element (Text d) = False"

text \<open>The local name of an element, in lower case as the HTML parser stores it.\<close>

fun tagName :: "node \<Rightarrow> string" where
  "tagName (Element t a cs) = t"
| "tagName (Text d) = []"

fun getAttribute :: "node \<Rightarrow> string \<Rightarrow> string option" where
  "getAttribute (Element t a cs) k = map_of a k"
| "getAttribute (Text d) k = None"

fun childNodes :: "node \<Rightarrow> node list" where
  "childNodes (Element t a cs) = cs"
| "childNodes (Text d) = []"

fun textContent :: "node \<Rightarrow> string" where
  "textContent (Text d) = d"
| "textContent (Element t a cs) = concat (map textContent cs)"

text \<open>
  The getter \<open>innerHTML\<close>: the fragment serialisation of the HTML standard, for elements
  and text nodes.
\<close>

definition escape_text :: "string \<Rightarrow> string" where
  "escape_text s = concat (map (\<lambda>c.
     if c = CHR ''&'' then ''&amp;''
     else if c = CHR 0xA0 then ''&nbsp;''
     else if c = CHR ''<'' then ''&lt;''
     else if c = CHR ''>'' then ''&gt;''
     else [c]) s)"

definition escape_attr :: "string \<Rightarrow> string" where
  "escape_attr s = concat (map (\<lambda>c.
     if c = CHR ''&'' then ''&amp;''
     else if c = CHR 0xA0 then ''&nbsp;''
     else if c = CHR 0x22 then ''&quot;''
     else [c]) s)"

definition void_elements :: "string list" where
  "void_elements = [''area'', ''base'', ''basefont'', ''bgsound'', ''br'', ''col'', ''embed'',
     ''frame'', ''hr'', ''img'', ''input'', ''keygen'', ''link'', ''meta'', ''param'', ''source'',
     ''track'', ''wbr'']"

definition raw_text_elements :: "string list" where
  "raw_text_elements = [''style'', ''script'', ''xmp'', ''iframe'', ''noembed'', ''noframes'',
     ''plaintext'']"

fun serialize :: "bool \<Rightarrow> node \<Rightarrow> string" where
  "serialize raw (Text d) = (if raw then d else escape_text d)"
| "serialize raw (Element t a cs) =
     ''<'' @ t
     @ concat (map (\<lambda>(k, v). '' '' @ k @ ''='' @ [CHR 0x22] @ escape_attr v @ [CHR 0x22]) a)
     @ ''>''
     @ (if t \<in> set void_elements then []
        else concat (map (serialize (t \<in> set raw_text_elements)) cs) @ ''</'' @ t @ ''>'')"

fun innerHTML :: "node \<Rightarrow> string" where
  "innerHTML (Element t a cs) = concat (map (serialize (t \<in> set raw_text_elements)) cs)"
| "innerHTML (Text d) = []"

text \<open>
  The selectors the sources use: a type selector (\<open>section\<close>), an ID selector
  (\<open>#content\<close>), a type selector with a substring test on an attribute
  (\<open>section[class*="chapter"]\<close>), and two of them joined by the descendant combinator
  (\<open>#content section\<close>). A selector list (\<open>h1,h2,h3,h4\<close>) is a list of selectors.
\<close>

datatype compound = Type string | Id string | TypeAttrContains string string string

datatype selector = Compound compound | Descendant compound compound

fun matches_compound :: "compound \<Rightarrow> node \<Rightarrow> bool" where
  "matches_compound (Type t) n = (is_element n \<and> tagName n = t)"
| "matches_compound (Id i) n = (getAttribute n ''id'' = Some i)"
| "matches_compound (TypeAttrContains t a v) n =
     (is_element n \<and> tagName n = t \<and>
      (case getAttribute n a of None \<Rightarrow> False | Some x \<Rightarrow> v \<noteq> [] \<and> sublist v x))"

text \<open>\<open>anc\<close> holds the ancestors of the node, the parent first.\<close>

fun matches :: "selector \<Rightarrow> node list \<Rightarrow> node \<Rightarrow> bool" where
  "matches (Compound c) anc n = matches_compound c n"
| "matches (Descendant a c) anc n = (matches_compound c n \<and> list_ex (matches_compound a) anc)"

text \<open>The elements of a subtree that match one of the selectors, in document order.\<close>

fun select :: "selector list \<Rightarrow> node list \<Rightarrow> node \<Rightarrow> node list" where
  "select sels anc (Text d) = []"
| "select sels anc (Element t a cs) =
     (if list_ex (\<lambda>sl. matches sl anc (Element t a cs)) sels then [Element t a cs] else [])
     @ concat (map (select sels (Element t a cs # anc)) cs)"

text \<open>
  A parsed document: \<open>document.title\<close> as the browser derives it, and the root element.
\<close>

record document =
  title :: string
  documentElement :: node

definition querySelectorAll :: "document \<Rightarrow> selector list \<Rightarrow> node list" where
  "querySelectorAll doc sels = select sels [] (documentElement doc)"

text \<open>\<open>element.querySelectorAll\<close>: the descendants of the element, not the element.\<close>

definition querySelectorAll_of :: "node \<Rightarrow> selector list \<Rightarrow> node list" where
  "querySelectorAll_of el sels = concat (map (select sels [el]) (childNodes el))"

text \<open>
  \<open>document.body\<close>: the first \<open>body\<close> or \<open>frameset\<close> child of the \<open>html\<close> element, or null.
\<close>

definition body :: "document \<Rightarrow> node option" where
  "body doc =
     (if tagName (documentElement doc) = ''html''
      then find (\<lambda>n. tagName n = ''body'' \<or> tagName n = ''frameset'')
             (childNodes (documentElement doc))
      else None)"

text \<open>The expression \<open>doc.body || doc.querySelector('body')\<close> of both files.\<close>

definition body_or_query :: "document \<Rightarrow> node option" where
  "body_or_query doc =
     (case body doc of
        Some b \<Rightarrow> Some b
      | None \<Rightarrow> (case querySelectorAll doc [Compound (Type ''body'')] of
                   [] \<Rightarrow> None
                 | b # bs \<Rightarrow> Some b))"

definition SELECTORS :: "selector list" where
  "SELECTORS =
     [Compound (TypeAttrContains ''section'' ''class'' ''chapter''),
      Compound (TypeAttrContains ''div'' ''class'' ''chapter''),
      Compound (TypeAttrContains ''section'' ''id'' ''chapter''),
      Compound (TypeAttrContains ''div'' ''id'' ''chapter''),
      Compound (Type ''article''),
      Compound (Type ''section''),
      Descendant (Id ''content'') (Type ''section''),
      Descendant (Id ''main'') (Type ''section'')]"

subsection \<open>reader.js: sanitizeContent\<close>

text \<open>
  \<open>content.replace(/<script[^>]*>.*?<\/script>/gi, '').trim()\<close>.

  \<open>match_script s\<close> is what is left of \<open>s\<close> behind a match of the expression at the start
  of \<open>s\<close>, if there is one. After \<open><script\<close> (in any case) the class \<open>[^>]*\<close> can only end
  at the first \<open>>\<close>; the lazy \<open>.*?\<close> then stops at the first \<open></script>\<close> (in any case) and
  cannot pass a line terminator.
\<close>

definition is_line_terminator :: "char \<Rightarrow> bool" where
  "is_line_terminator c = (of_char c \<in> {10, 13 :: nat})"

fun lazy_body :: "string \<Rightarrow> string option" where
  "lazy_body s =
     (if starts_with_ci ''</script>'' s then Some (drop 9 s)
      else case s of
             [] \<Rightarrow> None
           | c # cs \<Rightarrow> if is_line_terminator c then None else lazy_body cs)"

definition match_script :: "string \<Rightarrow> string option" where
  "match_script s =
     (if starts_with_ci ''<script'' s
      then case dropWhile (\<lambda>c. c \<noteq> CHR ''>'') (drop 7 s) of
             [] \<Rightarrow> None
           | gt # rest \<Rightarrow> lazy_body rest
      else None)"

lemma lazy_body_length: "lazy_body s = Some r \<Longrightarrow> length r \<le> length s"
proof (induction s arbitrary: r)
  case Nil
  then show ?case by (simp split: if_splits)
next
  case (Cons c cs)
  show ?case
  proof (cases "starts_with_ci ''</script>'' (c # cs)")
    case True
    with Cons.prems show ?thesis by auto
  next
    case False
    with Cons.prems have "lazy_body cs = Some r" by (simp split: if_splits)
    from Cons.IH [OF this] show ?thesis by simp
  qed
qed

lemma match_script_length: "match_script s = Some r \<Longrightarrow> length r < length s"
proof -
  assume m: "match_script s = Some r"
  then have p: "starts_with_ci ''<script'' s"
    by (simp add: match_script_def split: if_splits)
  then have l: "7 \<le> length s"
    by (auto simp: starts_with_ci_def dest!: arg_cong [where f = length])
  from m p obtain gt rest
    where d: "dropWhile (\<lambda>c. c \<noteq> CHR ''>'') (drop 7 s) = gt # rest"
      and b: "lazy_body rest = Some r"
    by (auto simp: match_script_def split: list.splits)
  have "length (gt # rest) \<le> length (drop 7 s)"
    unfolding d [symmetric] by (rule length_dropWhile_le)
  with lazy_body_length [OF b] l show ?thesis by simp
qed

text \<open>The global replacement: every match, left to right, replaced by the empty string.\<close>

function replace_scripts :: "string \<Rightarrow> string" where
  "replace_scripts [] = []"
| "replace_scripts (c # cs) =
     (case match_script (c # cs) of
        Some rest \<Rightarrow> replace_scripts rest
      | None \<Rightarrow> c # replace_scripts cs)"
  by pat_completeness auto
termination
  by (relation "measure length") (auto dest: match_script_length)

definition sanitizeContent_reader :: "string \<Rightarrow> string" where
  "sanitizeContent_reader content = trim (replace_scripts content)"

subsection \<open>part_000: sanitizeContent\<close>

record sanitize_config =
  ALLOWED_TAGS :: "string list"
  ALLOWED_ATTR :: "string list"
  ALLOW_DATA_ATTR :: bool

definition SANITIZE_CONFIG :: sanitize_config where
  "SANITIZE_CONFIG = \<lparr>
     ALLOWED_TAGS = [''p'', ''br'', ''strong'', ''em'', ''b'', ''i'', ''u'', ''strike'', ''sub'', ''sup'',
       ''h1'', ''h2'', ''h3'', ''h4'', ''h5'', ''h6'', ''blockquote'', ''q'',
       ''ol'', ''ul'', ''li'', ''dl'', ''dt'', ''dd'',
       ''table'', ''thead'', ''tbody'', ''tr'', ''th'', ''td'',
       ''a'', ''img'', ''div'', ''span'', ''pre'', ''code''],
     ALLOWED_ATTR = [''href'', ''src'', ''alt'', ''title'', ''class'', ''id''],
     ALLOW_DATA_ATTR = False\<rparr>"

text \<open>
  What the browser and the page supply: the HTML fragment parser behind the setter
  \<open>div.innerHTML = html\<close>, and the library \<open>DOMPurify\<close> when the page has loaded it
  (\<open>typeof DOMPurify !== 'undefined'\<close>).
\<close>

record platform =
  parseFragment :: "string \<Rightarrow> node list"
  DOMPurify :: "(string \<Rightarrow> sanitize_config \<Rightarrow> string) option"

definition dangerous :: "selector list" where
  "dangerous = [Compound (Type ''script''), Compound (Type ''style''), Compound (Type ''iframe''),
     Compound (Type ''object''), Compound (Type ''embed'')]"

text \<open>
  \<open>div.querySelectorAll(sels).forEach(el => el.remove())\<close> for selectors that look at the
  element alone: every matching element leaves the tree, with its subtree.
\<close>

fun remove_matching :: "selector list \<Rightarrow> node \<Rightarrow> node" where
  "remove_matching sels (Text d) = Text d"
| "remove_matching sels (Element t a cs) =
     Element t a (map (remove_matching sels)
                    (filter (\<lambda>c. \<not> list_ex (\<lambda>sl. matches sl [] c) sels) cs))"

definition remove_all :: "selector list \<Rightarrow> node list \<Rightarrow> node list" where
  "remove_all sels ns =
     map (remove_matching sels) (filter (\<lambda>c. \<not> list_ex (\<lambda>sl. matches sl [] c) sels) ns)"

definition sanitizeContent_part :: "platform \<Rightarrow> string \<Rightarrow> string" where
  "sanitizeContent_part pf html =
     (case DOMPurify pf of
        Some sanitize \<Rightarrow> sanitize html SANITIZE_CONFIG
      | None \<Rightarrow> concat (map (serialize False) (remove_all dangerous (parseFragment pf html))))"

subsection \<open>Data shared by both files\<close>

datatype js_error = TypeError

record settings =
  theme :: string
  font :: string
  fontSize :: int

text \<open>The scroll metrics of the element \<open>chapterContent\<close>, in pixels.\<close>

record viewport =
  scrollTop :: real
  scrollHeight :: real
  clientHeight :: real

text \<open>
  The layout of the browser: the metrics of \<open>chapterContent\<close> once the markup of chapter
  \<open>i\<close> has replaced what the element held, from the metrics before.
\<close>

type_synonym layout = "nat \<Rightarrow> viewport \<Rightarrow> viewport"

record ('p, 'b) localStorage =
  SETTINGS :: "settings option"
  PROGRESS :: "'p option"
  BOOKMARKS :: "'b list option"
  writable :: bool

subsection \<open>reader.js: the state\<close>

record chapter_reader =
  id' :: nat
  title :: string
  content :: string

text \<open>\<open>metadata\<close> (written once by \<open>parseNovelHTML\<close>, never read) is left out.\<close>

record novel_reader =
  title :: string
  chapters :: "chapter_reader list"

record bookmark_reader =
  id' :: string
  title :: string
  chapter' :: int
  position :: real
  timestamp :: nat

record progress_reader =
  novel :: string
  chapter' :: int
  position :: real
  timestamp :: nat

text \<open>\<open>contentHTML\<close> is the markup \<open>chapterContent.innerHTML\<close> holds.\<close>

record reader =
  novelData :: "novel_reader option"
  currentChapter :: int
  currentPosition :: real
  bookmarks :: "bookmark_reader list"
  settings :: settings
  classList :: "string list"
  chapterTitle :: string
  contentHTML :: string
  chapterContent :: viewport
  storage :: "(progress_reader, bookmark_reader) localStorage"

subsection \<open>part_000: the state\<close>

record chapter_part =
  title :: string
  content :: string
  element :: node

record novel_part =
  title :: string
  chapters :: "chapter_part list"
  fileName :: string

record bookmark_part =
  novelTitle :: string
  chapterIndex :: int
  chapterTitle :: string
  timestamp :: nat

record progress_part =
  novelTitle :: string
  currentChapter :: int
  currentPosition :: real
  timestamp :: nat

text \<open>
  A pending \<open>setTimeout\<close>: the handle it returned, the time (in ms) it is due, and which of
  the three callbacks of part_000 that touch the reader it runs.
\<close>

datatype callback = ScrollDebounce | AutoAdvance | RestoreScroll

record timer =
  handle :: nat
  due :: nat
  callback :: callback

text \<open>
  \<open>displayed\<close> is the index of the chapter whose markup (with its end-of-chapter button)
  \<open>chapterContent.innerHTML\<close> holds. \<open>now\<close> is the clock \<open>Date.now()\<close> reads, \<open>timers\<close> the
  pending timeouts in the order they were created.
\<close>

record part =
  novelData :: "novel_part option"
  currentChapter :: int
  currentPosition :: real
  bookmarks :: "bookmark_part list"
  settings :: settings
  scrollTimeout :: "nat option"
  autoAdvanceTimeout :: "nat option"
  className :: string
  chapterTitle :: string
  displayed :: "nat option"
  chapterContent :: viewport
  storage :: "(progress_part, bookmark_part) localStorage"
  now :: nat
  timers :: "timer list"
  next_handle :: nat

subsection \<open>reader.js: parseNovelHTML\<close>

definition headings4 :: "selector list" where
  "headings4 = [Compound (Type ''h1''), Compound (Type ''h2''), Compound (Type ''h3''),
     Compound (Type ''h4'')]"

text \<open>The body of \<open>elements.forEach((el, index) => ...)\<close>: the chapters it pushes.\<close>

definition push_reader :: "nat \<times> node \<Rightarrow> chapter_reader list" where
  "push_reader p =
     (let index = fst p; el = snd p;
          heading = (case querySelectorAll_of el headings4 of
                       [] \<Rightarrow> []
                     | h # hs \<Rightarrow> trim (textContent h));
          title = (if heading \<noteq> [] then heading else ''Chapter '' @ toString_nat (index + 1));
          content = innerHTML el
      in if title \<noteq> [] \<and> content \<noteq> []
         then [\<lparr>chapter_reader.id' = index + 1, chapter_reader.title = title,
                chapter_reader.content = sanitizeContent_reader content\<rparr>]
         else [])"

text \<open>The loop \<open>for (const selector of CONFIG.SELECTORS)\<close> with its \<open>break\<close>.\<close>

fun scan_reader :: "document \<Rightarrow> selector list \<Rightarrow> chapter_reader list" where
  "scan_reader doc [] = []"
| "scan_reader doc (sel # sels) =
     (let elements = querySelectorAll doc [sel]
      in if length elements > 0 then concat (map push_reader (enumerate 0 elements))
         else scan_reader doc sels)"

definition parseNovelHTML :: "document \<Rightarrow> novel_reader" where
  "parseNovelHTML doc =
     (let found = scan_reader doc SELECTORS;
          chapters =
            (if length found = 0
             then (case body_or_query doc of
                     Some b \<Rightarrow>
                       [\<lparr>chapter_reader.id' = 1,
                         chapter_reader.title =
                           (if trim (document.title doc) \<noteq> [] then trim (document.title doc)
                            else ''Novel Content''),
                         chapter_reader.content = sanitizeContent_reader (innerHTML b)\<rparr>]
                   | None \<Rightarrow> [])
             else found)
      in \<lparr>novel_reader.title =
            (if trim (document.title doc) \<noteq> [] then trim (document.title doc)
             else ''Untitled Novel''),
          novel_reader.chapters = chapters\<rparr>)"

subsection \<open>part_000: extractChapters\<close>

definition headings6 :: "selector list" where
  "headings6 = [Compound (Type ''h1''), Compound (Type ''h2''), Compound (Type ''h3''),
     Compound (Type ''h4''), Compound (Type ''h5''), Compound (Type ''h6'')]"

text \<open>\<open>titleAttr.replace(/[-_]/g, ' ')\<close>.\<close>

definition replace_dash :: "string \<Rightarrow> string" where
  "replace_dash s = map (\<lambda>c. if c = CHR ''-'' \<or> c = CHR ''_'' then CHR '' '' else c) s"

text \<open>\<open>a || d\<close> for an attribute value \<open>a\<close>: null and the empty string are falsy.\<close>

definition or_else :: "string option \<Rightarrow> string \<Rightarrow> string" where
  "or_else a d = (case a of None \<Rightarrow> d | Some x \<Rightarrow> if x \<noteq> [] then x else d)"

text \<open>\<open>element.id\<close>: the attribute, or the empty string.\<close>

definition element_id :: "node \<Rightarrow> string" where
  "element_id el = (case getAttribute el ''id'' of None \<Rightarrow> [] | Some i \<Rightarrow> i)"

definition extractChapterTitle :: "node \<Rightarrow> nat \<Rightarrow> string" where
  "extractChapterTitle el index =
     (case querySelectorAll_of el headings6 of
        h # hs \<Rightarrow> trim (textContent h)
      | [] \<Rightarrow>
          (let titleAttr = or_else (getAttribute el ''data-title'')
                             (or_else (getAttribute el ''title'') (element_id el))
           in if titleAttr \<noteq> [] then trim (replace_dash titleAttr)
              else ''Chapter '' @ toString_nat (index + 1)))"

definition push_part :: "platform \<Rightarrow> nat \<times> node \<Rightarrow> chapter_part" where
  "push_part pf p =
     \<lparr>chapter_part.title = extractChapterTitle (snd p) (fst p),
      chapter_part.content = sanitizeContent_part pf (innerHTML (snd p)),
      element = snd p\<rparr>"

text \<open>The loop over \<open>CONFIG.SELECTORS\<close>; \<open>acc\<close> is the array \<open>chapters\<close>.\<close>

fun scan_part :: "platform \<Rightarrow> document \<Rightarrow> selector list \<Rightarrow> chapter_part list
    \<Rightarrow> chapter_part list" where
  "scan_part pf doc [] acc = acc"
| "scan_part pf doc (sel # sels) acc =
     (let elements = querySelectorAll doc [sel]
      in if length elements > 0
         then (let acc1 = acc @ map (push_part pf) (enumerate 0 elements)
               in if length acc1 > 0 then acc1 else scan_part pf doc sels acc1)
         else scan_part pf doc sels acc)"

definition extractChapters :: "platform \<Rightarrow> document \<Rightarrow> chapter_part list" where
  "extractChapters pf doc =
     (let chapters = scan_part pf doc SELECTORS []
      in if length chapters = 0
         then (case body_or_query doc of
                 Some b \<Rightarrow>
                   [\<lparr>chapter_part.title = ''Chapter 1'',
                     chapter_part.content = sanitizeContent_part pf (innerHTML b),
                     element = b\<rparr>]
               | None \<Rightarrow> [])
         else chapters)"

subsection \<open>reader.js: settings\<close>

definition classList_remove :: "string \<Rightarrow> string list \<Rightarrow> string list" where
  "classList_remove c cs = filter (\<lambda>x. x \<noteq> c) cs"

definition classList_add :: "string \<Rightarrow> string list \<Rightarrow> string list" where
  "classList_add c cs = (if c \<in> set cs then cs else cs @ [c])"

definition saveSettings_reader :: "reader \<Rightarrow> reader" where
  "saveSettings_reader s =
     (if writable (reader.storage s)
      then s\<lparr>reader.storage := (reader.storage s)\<lparr>SETTINGS := Some (reader.settings s)\<rparr>\<rparr>
      else s)"

definition setTheme_reader :: "string \<Rightarrow> reader \<Rightarrow> reader" where
  "setTheme_reader th s =
     (if th \<notin> set THEMES then s
      else
        let s1 = s\<lparr>reader.settings := (reader.settings s)\<lparr>theme := th\<rparr>\<rparr>;
            s2 = s1\<lparr>classList :=
                   classList_add (''theme-'' @ th)
                     (classList_remove (''theme-'' @ theme (reader.settings s1)) (classList s1))\<rparr>
        in saveSettings_reader s2)"

definition setFont_reader :: "string \<Rightarrow> reader \<Rightarrow> reader" where
  "setFont_reader f s =
     (if f \<notin> set FONTS then s
      else
        let s1 = s\<lparr>reader.settings := (reader.settings s)\<lparr>font := f\<rparr>\<rparr>;
            s2 = s1\<lparr>classList :=
                   classList_add (''font-'' @ f)
                     (classList_remove (''font-'' @ font (reader.settings s1)) (classList s1))\<rparr>
        in saveSettings_reader s2)"

subsection \<open>part_000: settings\<close>

definition saveSettings_part :: "part \<Rightarrow> part" where
  "saveSettings_part s =
     (if writable (part.storage s)
      then s\<lparr>part.storage := (part.storage s)\<lparr>SETTINGS := Some (part.settings s)\<rparr>\<rparr>
      else s)"

definition setTheme_part :: "string \<Rightarrow> part \<Rightarrow> part" where
  "setTheme_part th s =
     (if th \<notin> set THEMES then s
      else
        let s1 = s\<lparr>part.settings := (part.settings s)\<lparr>theme := th\<rparr>\<rparr>;
            s2 = s1\<lparr>className :=
                   ''novel-reader theme-'' @ th @ '' font-'' @ font (part.settings s1)\<rparr>
        in saveSettings_part s2)"

definition setFont_part :: "string \<Rightarrow> part \<Rightarrow> part" where
  "setFont_part f s =
     (if f \<notin> set FONTS then s
      else
        let s1 = s\<lparr>part.settings := (part.settings s)\<lparr>font := f\<rparr>\<rparr>;
            s2 = s1\<lparr>className :=
                   ''novel-reader theme-'' @ theme (part.settings s1) @ '' font-'' @ f\<rparr>
        in saveSettings_part s2)"

subsection \<open>reader.js: navigation, scrolling, progress and bookmarks\<close>

text \<open>
  \<open>displayChapter(index)\<close>. \<open>this.novelData.chapters\<close> throws when no novel is loaded;
  an index outside the array reads \<open>undefined\<close> and the method returns.
\<close>

definition displayChapter_reader :: "layout \<Rightarrow> int \<Rightarrow> reader \<Rightarrow> js_error + reader" where
  "displayChapter_reader L index s =
     (case reader.novelData s of
        None \<Rightarrow> Inl TypeError
      | Some nv \<Rightarrow>
          if index < 0 \<or> int (length (novel_reader.chapters nv)) \<le> index then Inr s
          else
            let ch = novel_reader.chapters nv ! nat index
            in Inr (s\<lparr>reader.chapterTitle := chapter_reader.title ch,
                      contentHTML := chapter_reader.content ch,
                      reader.chapterContent :=
                        (L (nat index) (reader.chapterContent s))\<lparr>scrollTop := 0\<rparr>,
                      reader.currentPosition := 0\<rparr>))"

text \<open>\<open>updateUI\<close> only draws a progress bar that reader.js never creates.\<close>

definition goToChapter :: "layout \<Rightarrow> int \<Rightarrow> reader \<Rightarrow> js_error + reader" where
  "goToChapter L index s =
     (case reader.novelData s of
        None \<Rightarrow> Inr s
      | Some nv \<Rightarrow>
          if 0 \<le> index \<and> index < int (length (novel_reader.chapters nv))
          then displayChapter_reader L index (s\<lparr>reader.currentChapter := index\<rparr>)
          else Inr s)"


text \<open>\<open>t\<close> is the time \<open>new Date()\<close> reads.\<close>

definition saveReadingProgress :: "nat \<Rightarrow> reader \<Rightarrow> reader" where
  "saveReadingProgress t s =
     (case reader.novelData s of
        None \<Rightarrow> s
      | Some nv \<Rightarrow>
          if writable (reader.storage s)
          then s\<lparr>reader.storage := (reader.storage s)\<lparr>PROGRESS :=
                   Some \<lparr>novel = novel_reader.title nv,
                         progress_reader.chapter' = reader.currentChapter s,
                         progress_reader.position = reader.currentPosition s,
                         progress_reader.timestamp = t\<rparr>\<rparr>\<rparr>
          else s)"


definition restoreScrollPosition_reader :: "reader \<Rightarrow> reader" where
  "restoreScrollPosition_reader s =
     (if reader.currentPosition s > 0
      then s\<lparr>reader.chapterContent := (reader.chapterContent s)\<lparr>scrollTop :=
               (scrollHeight (reader.chapterContent s) - clientHeight (reader.chapterContent s))
               * reader.currentPosition s\<rparr>\<rparr>
      else s)"

text \<open>
  \<open>loadReadingProgress\<close>. \<open>data.chapter || 0\<close> and \<open>data.position || 0\<close> leave a number
  as it is. An exception is caught and logged, the assignments made before it stand.
\<close>

definition loadReadingProgress :: "layout \<Rightarrow> reader \<Rightarrow> reader" where
  "loadReadingProgress L s =
     (case PROGRESS (reader.storage s) of
        None \<Rightarrow> s
      | Some d \<Rightarrow>
          if Some (novel d) = map_option novel_reader.title (reader.novelData s)
          then
            let s1 = s\<lparr>reader.currentChapter := progress_reader.chapter' d,
                       reader.currentPosition := progress_reader.position d\<rparr>
            in (case goToChapter L (reader.currentChapter s1) s1 of
                  Inl e \<Rightarrow> s1
                | Inr s2 \<Rightarrow>
                    if reader.currentPosition s2 > 0 then restoreScrollPosition_reader s2
                    else s2)
          else s)"

text \<open>
  The callback \<open>reader.onload\<close> of \<open>processFile\<close>, from the parsed document on: its
  \<open>try\<close> block up to the first exception.
\<close>

definition processFile_reader :: "layout \<Rightarrow> document \<Rightarrow> reader \<Rightarrow> reader" where
  "processFile_reader L doc s =
     (let s1 = s\<lparr>reader.novelData := Some (parseNovelHTML doc)\<rparr>
      in case displayChapter_reader L 0 s1 of
           Inl e \<Rightarrow> s1
         | Inr s2 \<Rightarrow> loadReadingProgress L s2)"

definition saveBookmarks_reader :: "reader \<Rightarrow> reader" where
  "saveBookmarks_reader s =
     (if writable (reader.storage s)
      then s\<lparr>reader.storage := (reader.storage s)\<lparr>BOOKMARKS := Some (reader.bookmarks s)\<rparr>\<rparr>
      else s)"


subsection \<open>part_000: timers\<close>

definition setTimeout :: "callback \<Rightarrow> nat \<Rightarrow> part \<Rightarrow> nat \<times> part" where
  "setTimeout cb delay s =
     (next_handle s,
      s\<lparr>timers := timers s @ [\<lparr>handle = next_handle s, due = now s + delay, callback = cb\<rparr>],
        next_handle := Suc (next_handle s)\<rparr>)"




subsection \<open>part_000: navigation, scrolling, progress and bookmarks\<close>

definition restoreScrollPosition_part :: "part \<Rightarrow> part" where
  "restoreScrollPosition_part s =
     (if part.currentPosition s > 0 then snd (setTimeout RestoreScroll 10 s) else s)"

definition updateProgress :: "part \<Rightarrow> part" where
  "updateProgress s =
     (let v = part.chapterContent s;
          scrollHeight' = scrollHeight v - clientHeight v
      in if scrollHeight' > 0
         then s\<lparr>part.currentPosition := scrollTop v / scrollHeight'\<rparr>
         else s)"

definition saveProgress :: "part \<Rightarrow> part" where
  "saveProgress s =
     (case part.novelData s of
        None \<Rightarrow> s
      | Some nv \<Rightarrow>
          if writable (part.storage s)
          then s\<lparr>part.storage := (part.storage s)\<lparr>PROGRESS :=
                   Some \<lparr>progress_part.novelTitle = novel_part.title nv,
                         progress_part.currentChapter = part.currentChapter s,
                         progress_part.currentPosition = part.currentPosition s,
                         progress_part.timestamp = now s\<rparr>\<rparr>\<rparr>
          else s)"

text \<open>
  \<open>displayChapter(chapterIndex)\<close> of part_000. \<open>checkForChapterEndButton\<close> only starts an
  animation.
\<close>

definition displayChapter_part :: "layout \<Rightarrow> int \<Rightarrow> part \<Rightarrow> part" where
  "displayChapter_part L idx s =
     (case part.novelData s of
        None \<Rightarrow> s
      | Some nv \<Rightarrow>
          if idx < 0 \<or> int (length (novel_part.chapters nv)) \<le> idx then s
          else
            let ch = novel_part.chapters nv ! nat idx;
                s1 = s\<lparr>part.currentChapter := idx,
                       part.chapterTitle := chapter_part.title ch,
                       displayed := Some (nat idx),
                       part.chapterContent := L (nat idx) (part.chapterContent s)\<rparr>
            in saveProgress (updateProgress (restoreScrollPosition_part s1)))"

definition previousChapter :: "layout \<Rightarrow> part \<Rightarrow> part" where
  "previousChapter L s =
     (if part.currentChapter s > 0 then displayChapter_part L (part.currentChapter s - 1) s
      else s)"




text \<open>
  \<open>loadProgress\<close>: whether a record was restored, and the state. Reading
  \<open>this.novelData.title\<close> without a novel throws inside the \<open>try\<close>: the result is false.
\<close>

definition loadProgress :: "part \<Rightarrow> bool \<times> part" where
  "loadProgress s =
     (case PROGRESS (part.storage s) of
        None \<Rightarrow> (False, s)
      | Some d \<Rightarrow>
          (case part.novelData s of
             None \<Rightarrow> (False, s)
           | Some nv \<Rightarrow>
               if progress_part.novelTitle d = novel_part.title nv
               then (True, s\<lparr>part.currentChapter := progress_part.currentChapter d,
                             part.currentPosition := progress_part.currentPosition d\<rparr>)
               else (False, s)))"

definition showReaderInterface_part :: "part \<Rightarrow> part" where
  "showReaderInterface_part s = snd (loadProgress s)"

text \<open>\<open>file.name.replace(/\.html?$/i, '')\<close>.\<close>

definition strip_html_suffix :: "string \<Rightarrow> string" where
  "strip_html_suffix name =
     (if 5 \<le> length name
         \<and> map toLowerCase_char (drop (length name - 5) name) = ''.html''
      then take (length name - 5) name
      else if 4 \<le> length name
         \<and> map toLowerCase_char (drop (length name - 4) name) = ''.htm''
      then take (length name - 4) name
      else name)"

text \<open>
  \<open>processFile\<close> of part_000 from the parsed document on. \<open>Inl m\<close>: an \<open>Error\<close> with message
  \<open>m\<close> was thrown and handed to \<open>handleError\<close>; the reader is as it was.
\<close>

definition processFile_part ::
    "platform \<Rightarrow> layout \<Rightarrow> document \<Rightarrow> string \<Rightarrow> part \<Rightarrow> string + part" where
  "processFile_part pf L doc name s =
     (if querySelectorAll doc [Compound (Type ''parsererror'')] \<noteq> []
      then Inl ''Invalid HTML format''
      else
        let chapters = extractChapters pf doc
        in if length chapters = 0 then Inl ''No chapters found in the file''
           else
             let s1 = s\<lparr>part.novelData :=
                        Some \<lparr>novel_part.title =
                                (if document.title doc \<noteq> [] then document.title doc
                                 else strip_html_suffix name),
                              novel_part.chapters = chapters,
                              fileName = name\<rparr>,
                        part.currentChapter := 0,
                        part.currentPosition := 0\<rparr>
             in Inr (showReaderInterface_part (displayChapter_part L 0 s1)))"

definition saveBookmarks_part :: "part \<Rightarrow> part" where
  "saveBookmarks_part s =
     (if writable (part.storage s)
      then s\<lparr>part.storage := (part.storage s)\<lparr>BOOKMARKS := Some (part.bookmarks s)\<rparr>\<rparr>
      else s)"




subsection \<open>part_000: the event loop\<close>






subsection \<open>Example states\<close>

definition defaultSettings :: settings where
  "defaultSettings = \<lparr>theme = ''light'', font = ''serif'', fontSize = 18\<rparr>"

definition emptyStorage :: "('p, 'b) localStorage" where
  "emptyStorage = \<lparr>SETTINGS = None, PROGRESS = None, BOOKMARKS = None, writable = True\<rparr>"

definition view0 :: viewport where
  "view0 = \<lparr>scrollTop = 0, scrollHeight = 2000, clientHeight = 600\<rparr>"

text \<open>The state the constructor of reader.js leaves, before any file is opened.\<close>

definition reader0 :: reader where
  "reader0 = \<lparr>reader.novelData = None, reader.currentChapter = 0,
     reader.currentPosition = 0, reader.bookmarks = [], reader.settings = defaultSettings,
     classList = [''theme-light'', ''font-serif''], reader.chapterTitle = [],
     contentHTML = [], reader.chapterContent = view0, reader.storage = emptyStorage\<rparr>"

text \<open>The state the constructor of part_000 leaves.\<close>

definition part0 :: part where
  "part0 = \<lparr>novelData = None, currentChapter = 0, currentPosition = 0, bookmarks = [],
     settings = defaultSettings, scrollTimeout = None, autoAdvanceTimeout = None,
     className = ''novel-reader theme-light font-serif'', chapterTitle = [],
     displayed = None, chapterContent = view0, storage = emptyStorage, now = 0,
     timers = [], next_handle = 1\<rparr>"

text \<open>
  The fragment parser on text without markup: \<open>div.innerHTML = "one"\<close> gives one text
  node. It stands for the browser in the examples, which hold such text only.
\<close>

definition parse_plain :: "string \<Rightarrow> node list" where
  "parse_plain html = (if html = [] then [] else [Text html])"

definition browser :: platform where
  "browser = \<lparr>parseFragment = parse_plain, DOMPurify = None\<rparr>"

text \<open>
  A novel titled Foo with five chapters,
  \<open><section class="chapter">one</section>\<close> to \<open><section class="chapter">five</section>\<close>.
\<close>

definition section_of :: "string \<Rightarrow> node" where
  "section_of txt = Element ''section'' [(''class'', ''chapter'')] [Text txt]"

definition docFoo :: document where
  "docFoo = \<lparr>document.title = ''Foo'', documentElement =
     Element ''html'' []
       [Element ''head'' [] [Element ''title'' [] [Text ''Foo'']],
        Element ''body'' []
          [section_of ''one'', section_of ''two'', section_of ''three'', section_of ''four'',
           section_of ''five'']]\<rparr>"

definition chaptersFoo_part :: "chapter_part list" where
  "chaptersFoo_part =
     map (\<lambda>(t, c). \<lparr>chapter_part.title = t, chapter_part.content = c, element = section_of c\<rparr>)
       [(''Chapter 1'', ''one''), (''Chapter 2'', ''two''), (''Chapter 3'', ''three''),
        (''Chapter 4'', ''four''), (''Chapter 5'', ''five'')]"

definition chaptersFoo_reader :: "chapter_reader list" where
  "chaptersFoo_reader =
     map (\<lambda>(i, t, c). \<lparr>chapter_reader.id' = i, chapter_reader.title = t,
                        chapter_reader.content = c\<rparr>)
       [(1, ''Chapter 1'', ''one''), (2, ''Chapter 2'', ''two''), (3, ''Chapter 3'', ''three''),
        (4, ''Chapter 4'', ''four''), (5, ''Chapter 5'', ''five'')]"

definition novelFoo_part :: novel_part where
  "novelFoo_part = \<lparr>novel_part.title = ''Foo'', novel_part.chapters = chaptersFoo_part,
     fileName = ''foo.html''\<rparr>"

definition novelFoo_reader :: novel_reader where
  "novelFoo_reader = \<lparr>novel_reader.title = ''Foo'', novel_reader.chapters = chaptersFoo_reader\<rparr>"

text \<open>The two readers with Foo open at its first chapter.\<close>

definition loadedFoo_part :: part where
  "loadedFoo_part = part0\<lparr>part.novelData := Some novelFoo_part,
     part.chapterTitle := ''Chapter 1'', displayed := Some 0\<rparr>"


text \<open>Two layouts: every chapter is 2000 pixels high; every chapter fits the viewport.\<close>

definition top_of_page :: layout where
  "top_of_page i v = \<lparr>scrollTop = 0, scrollHeight = 2000, clientHeight = 600\<rparr>"

definition fits :: layout where
  "fits i v = \<lparr>scrollTop = 0, scrollHeight = clientHeight v, clientHeight = clientHeight v\<rparr>"

text \<open>
  The progress record \<open>{novelTitle: "Foo", currentChapter: 3, scrollFraction: 0.42}\<close>, with
  the field names of each file.
\<close>

definition fooProgress_part :: progress_part where
  "fooProgress_part = \<lparr>progress_part.novelTitle = ''Foo'', progress_part.currentChapter = 3,
     progress_part.currentPosition = 42 / 100, progress_part.timestamp = 7\<rparr>"

definition fooProgress_reader :: progress_reader where
  "fooProgress_reader = \<lparr>novel = ''Foo'', progress_reader.chapter' = 3,
     progress_reader.position = 42 / 100, progress_reader.timestamp = 7\<rparr>"



definition docPlain :: document where
  "docPlain = \<lparr>document.title = ''Plain'', documentElement =
     Element ''html'' []
       [Element ''head'' [] [],
        Element ''body'' [] [Text ''once upon a time'']]\<rparr>"





subsection \<open>Notions the theorems are stated with\<close>

text \<open>
  The pending auto-advance timers; the condition of \<open>checkAutoAdvance\<close> for being near
  the bottom; and the invariant of the timer queue: handles are distinct and below the next
  handle, and a pending auto-advance timer is the one \<open>autoAdvanceTimeout\<close> names.
\<close>

definition pending_auto :: "part \<Rightarrow> timer list" where
  "pending_auto s = filter (\<lambda>u. callback u = AutoAdvance) (timers s)"


definition timers_ok :: "part \<Rightarrow> bool" where
  "timers_ok s =
     (distinct (map handle (timers s))
      \<and> list_all (\<lambda>u. handle u < next_handle s) (timers s)
      \<and> list_all (\<lambda>u. autoAdvanceTimeout s = Some (handle u)) (pending_auto s))"





text \<open>
  The first selector of a list that matches an element of the document: "the first
  pattern that yields a match".
\<close>

definition first_match :: "document \<Rightarrow> selector list \<Rightarrow> selector option" where
  "first_match doc sels = find (\<lambda>sel. querySelectorAll doc [sel] \<noteq> []) sels"






section \<open>Theorems\<close>

subsection \<open>C10: an unknown theme or font changes nothing\<close>

lemma setTheme_reader_known:
  "reader.settings (setTheme_reader ''dark'' reader0) = defaultSettings\<lparr>theme := ''dark''\<rparr>
   \<and> SETTINGS (reader.storage (setTheme_reader ''dark'' reader0))
       = Some (defaultSettings\<lparr>theme := ''dark''\<rparr>)"
  by (simp add: setTheme_reader_def THEMES_def reader0_def saveSettings_reader_def
      emptyStorage_def Let_def)

lemma setFont_part_known:
  "part.settings (setFont_part ''mono'' part0) = defaultSettings\<lparr>font := ''mono''\<rparr>
   \<and> SETTINGS (part.storage (setFont_part ''mono'' part0))
       = Some (defaultSettings\<lparr>font := ''mono''\<rparr>)"
  by (simp add: setFont_part_def FONTS_def part0_def saveSettings_part_def
      emptyStorage_def Let_def)

text \<open>
  C10. For every string \<open>t\<close> that is not one of light, dark, sepia, \<open>setTheme(t)\<close> returns
  the reader as it was: the settings in memory, the settings key of \<open>localStorage\<close> and
  every other field are unchanged. Likewise \<open>setFont(f)\<close> for every string \<open>f\<close> that is not
  one of serif, sans, mono. This holds in reader.js and in part_000.
\<close>

theorem C10_unknown_theme_or_font_is_noop:
  assumes "t \<notin> {''light'', ''dark'', ''sepia''}"
    and "f \<notin> {''serif'', ''sans'', ''mono''}"
  shows "setTheme_reader t r = r \<and> setFont_reader f r = r
       \<and> setTheme_part t p = p \<and> setFont_part f p = p"
  using assms
  by (simp add: setTheme_reader_def setFont_reader_def setTheme_part_def setFont_part_def
      THEMES_def FONTS_def)

theorem C10_unknown_theme_or_font_witness:
  "''blue'' \<notin> {''light'', ''dark'', ''sepia''} \<and> ''comic'' \<notin> {''serif'', ''sans'', ''mono''}
   \<and> setTheme_reader ''blue'' reader0 = reader0 \<and> setFont_reader ''comic'' reader0 = reader0
   \<and> setTheme_part ''blue'' part0 = part0 \<and> setFont_part ''comic'' part0 = part0"
  using C10_unknown_theme_or_font_is_noop [of "''blue''" "''comic''" reader0 part0]
  by simp

subsection \<open>The example document\<close>

lemma toString_nat_digit: "n < 10 \<Longrightarrow> toString_nat n = [digit n]"
  by simp

declare toString_nat.simps [simp del]

lemma select_docFoo:
  "querySelectorAll docFoo [Compound (TypeAttrContains ''section'' ''class'' ''chapter'')]
   = [section_of ''one'', section_of ''two'', section_of ''three'', section_of ''four'',
      section_of ''five'']"
  by (simp add: querySelectorAll_def docFoo_def section_of_def sublist_code prefix_code)

lemma docFoo_parsererror: "querySelectorAll docFoo [Compound (Type ''parsererror'')] = []"
  by (simp add: querySelectorAll_def docFoo_def section_of_def)

lemma docFoo_title: "document.title docFoo = ''Foo''"
  by (simp add: docFoo_def)

lemma extractChapters_docFoo: "extractChapters browser docFoo = chaptersFoo_part"
  by (simp add: extractChapters_def SELECTORS_def select_docFoo push_part_def section_of_def
      extractChapterTitle_def querySelectorAll_of_def headings6_def or_else_def element_id_def
      sanitizeContent_part_def browser_def parse_plain_def remove_all_def dangerous_def
      escape_text_def chaptersFoo_part_def raw_text_elements_def enumerate_eq_zip upt_rec
      toString_nat_digit digit_def)

lemma parseNovelHTML_docFoo: "parseNovelHTML docFoo = novelFoo_reader"
  by (simp add: parseNovelHTML_def SELECTORS_def select_docFoo push_reader_def section_of_def
      querySelectorAll_of_def headings4_def sanitizeContent_reader_def escape_text_def
      chaptersFoo_reader_def novelFoo_reader_def raw_text_elements_def enumerate_eq_zip upt_rec
      trim_def is_ws_def match_script_def starts_with_ci_def toLowerCase_char_def docFoo_title
      toString_nat_digit digit_def)

subsection \<open>C5: goTo\<close>

text \<open>
  reader.js does what C5 says: \<open>goToChapter\<close> with an index outside the chapters returns
  the reader unchanged, and with an index inside it lands on that chapter with the scroll
  fraction and the scroll offset at 0.
\<close>

lemma goToChapter_out_of_range:
  assumes "reader.novelData s = Some nv"
    and "index < 0 \<or> int (length (novel_reader.chapters nv)) \<le> index"
  shows "goToChapter L index s = Inr s"
  using assms by (auto simp: goToChapter_def)

lemma goToChapter_in_range:
  assumes "reader.novelData s = Some nv"
    and "0 \<le> index" and "index < int (length (novel_reader.chapters nv))"
  shows "\<exists>s'. goToChapter L index s = Inr s' \<and> reader.currentChapter s' = index
           \<and> reader.currentPosition s' = 0 \<and> scrollTop (reader.chapterContent s') = 0"
  using assms by (simp add: goToChapter_def displayChapter_reader_def Let_def)

text \<open>
  part_000 has no \<open>goToChapter\<close>; the chapter list and the previous and next buttons call
  \<open>displayChapter\<close>. Outside the chapters it returns the reader unchanged, inside it sets
  the current chapter.
\<close>

lemma displayChapter_part_out_of_range:
  assumes "part.novelData s = Some nv"
    and "index < 0 \<or> int (length (novel_part.chapters nv)) \<le> index"
  shows "displayChapter_part L index s = s"
  using assms by (auto simp: displayChapter_part_def)

lemma currentChapter_saveProgress [simp]:
  "part.currentChapter (saveProgress s) = part.currentChapter s"
  by (simp add: saveProgress_def split: option.splits)

lemma currentChapter_updateProgress [simp]:
  "part.currentChapter (updateProgress s) = part.currentChapter s"
  by (simp add: updateProgress_def Let_def)

lemma currentChapter_restoreScrollPosition_part [simp]:
  "part.currentChapter (restoreScrollPosition_part s) = part.currentChapter s"
  by (simp add: restoreScrollPosition_part_def setTimeout_def)

lemma displayChapter_part_in_range:
  assumes "part.novelData s = Some nv"
    and "0 \<le> index" and "index < int (length (novel_part.chapters nv))"
  shows "part.currentChapter (displayChapter_part L index s) = index"
  using assms by (simp add: displayChapter_part_def Let_def)

text \<open>
  C5 says that going to a chapter inside the range lands on \<open>Reading(index, 0)\<close>. In
  part_000 \<open>displayChapter\<close> never assigns 0 to \<open>currentPosition\<close>: \<open>updateProgress\<close>
  recomputes the fraction only when the new content scrolls, and \<open>restoreScrollPosition\<close>
  schedules a scroll of the new chapter to the old fraction. Here the reader is half way
  down chapter 1 of Foo (index 0) and the user opens chapter 2 (index 1), which fits the
  viewport: the reader lands on chapter 2 with the fraction still 1/2, and a timer is
  pending that will scroll the new chapter.
\<close>

theorem C5_displayChapter_part_keeps_fraction:
  "part.currentChapter
     (displayChapter_part fits 1
        (loadedFoo_part\<lparr>part.currentPosition := 1 / 2,
           part.chapterContent := \<lparr>scrollTop = 700, scrollHeight = 2000, clientHeight = 600\<rparr>\<rparr>))
   = 1
   \<and> part.currentPosition
     (displayChapter_part fits 1
        (loadedFoo_part\<lparr>part.currentPosition := 1 / 2,
           part.chapterContent := \<lparr>scrollTop = 700, scrollHeight = 2000, clientHeight = 600\<rparr>\<rparr>))
   = 1 / 2
   \<and> map callback (timers
     (displayChapter_part fits 1
        (loadedFoo_part\<lparr>part.currentPosition := 1 / 2,
           part.chapterContent := \<lparr>scrollTop = 700, scrollHeight = 2000, clientHeight = 600\<rparr>\<rparr>)))
   = [RestoreScroll]"
  by (simp add: displayChapter_part_def loadedFoo_part_def novelFoo_part_def part0_def
      chaptersFoo_part_def fits_def restoreScrollPosition_part_def setTimeout_def
      updateProgress_def saveProgress_def emptyStorage_def Let_def)

subsection \<open>C6: restoring the progress on load\<close>

text \<open>
  part_000: \<open>processFile\<close> calls \<open>displayChapter(0)\<close>, which saves the progress, before
  \<open>showReaderInterface\<close> reads it. While storage can be written, the record that is read
  is the one just saved, and every load lands on chapter 0.
\<close>

lemma processFile_part_lands_on_chapter_0:
  assumes "writable (part.storage s)"
    and "processFile_part pf L doc name s = Inr s'"
  shows "part.currentChapter s' = 0"
  using assms
  by (auto simp: processFile_part_def Let_def displayChapter_part_def
      showReaderInterface_part_def loadProgress_def saveProgress_def updateProgress_def
      restoreScrollPosition_part_def setTimeout_def split: if_splits option.splits)

text \<open>
  reader.js: \<open>loadReadingProgress\<close> assigns the recorded fraction and then calls
  \<open>goToChapter\<close>, whose \<open>displayChapter\<close> sets the fraction to 0. A matching record with a
  chapter of the novel restores the chapter and forgets the fraction.
\<close>

lemma processFile_reader_forgets_position:
  assumes "PROGRESS (reader.storage s) = Some d"
    and "novel d = novel_reader.title (parseNovelHTML doc)"
    and "0 \<le> progress_reader.chapter' d"
    and "progress_reader.chapter' d < int (length (novel_reader.chapters (parseNovelHTML doc)))"
  shows "reader.currentChapter (processFile_reader L doc s) = progress_reader.chapter' d
       \<and> reader.currentPosition (processFile_reader L doc s) = 0"
  using assms
  by (auto simp: processFile_reader_def Let_def displayChapter_reader_def
      loadReadingProgress_def goToChapter_def restoreScrollPosition_reader_def
      split: if_splits option.splits)

text \<open>
  C6 says that loading a novel titled Foo while the stored progress is
  \<open>{novelTitle: "Foo", currentChapter: 3, scrollFraction: 0.42}\<close> lands on
  \<open>Reading(3, 0.42)\<close>. On the document Foo with five chapters, reader.js lands on chapter 3
  with fraction 0, and part_000 lands on chapter 0 with fraction 0.
\<close>

theorem C6_load_loses_stored_progress:
  "(reader.currentChapter
      (processFile_reader top_of_page docFoo
         (reader0\<lparr>reader.storage := emptyStorage\<lparr>PROGRESS := Some fooProgress_reader\<rparr>\<rparr>)),
    reader.currentPosition
      (processFile_reader top_of_page docFoo
         (reader0\<lparr>reader.storage := emptyStorage\<lparr>PROGRESS := Some fooProgress_reader\<rparr>\<rparr>)))
   = (3, 0)
   \<and> map_sum id (\<lambda>s. (part.currentChapter s, part.currentPosition s))
       (processFile_part browser top_of_page docFoo ''foo.html''
          (part0\<lparr>part.storage := emptyStorage\<lparr>PROGRESS := Some fooProgress_part\<rparr>\<rparr>))
   = Inr (0, 0)"
proof -
  have r: "(reader.currentChapter
      (processFile_reader top_of_page docFoo
         (reader0\<lparr>reader.storage := emptyStorage\<lparr>PROGRESS := Some fooProgress_reader\<rparr>\<rparr>)),
    reader.currentPosition
      (processFile_reader top_of_page docFoo
         (reader0\<lparr>reader.storage := emptyStorage\<lparr>PROGRESS := Some fooProgress_reader\<rparr>\<rparr>)))
   = (3, 0)"
    by (simp add: processFile_reader_def parseNovelHTML_docFoo novelFoo_reader_def
        chaptersFoo_reader_def reader0_def emptyStorage_def displayChapter_reader_def
        top_of_page_def loadReadingProgress_def fooProgress_reader_def goToChapter_def
        restoreScrollPosition_reader_def Let_def)
  have p: "map_sum id (\<lambda>s. (part.currentChapter s, part.currentPosition s))
       (processFile_part browser top_of_page docFoo ''foo.html''
          (part0\<lparr>part.storage := emptyStorage\<lparr>PROGRESS := Some fooProgress_part\<rparr>\<rparr>))
   = Inr (0, 0)"
    by (simp add: processFile_part_def extractChapters_docFoo docFoo_parsererror docFoo_title
        fooProgress_part_def chaptersFoo_part_def part0_def emptyStorage_def
        displayChapter_part_def top_of_page_def restoreScrollPosition_part_def setTimeout_def
        updateProgress_def saveProgress_def showReaderInterface_part_def loadProgress_def
        Let_def)
  from r p show ?thesis by (rule conjI)
qed

subsection \<open>C8: the stored scroll fraction\<close>


lemma currentPosition_saveReadingProgress [simp]:
  "reader.currentPosition (saveReadingProgress t s) = reader.currentPosition s"
  by (simp add: saveReadingProgress_def split: option.splits)




subsection \<open>C7: toggling a bookmark\<close>








lemma bookmarks_saveBookmarks_part [simp]:
  "part.bookmarks (saveBookmarks_part s) = part.bookmarks s"
  by (simp add: saveBookmarks_part_def)

lemma novelData_saveBookmarks_part [simp]:
  "part.novelData (saveBookmarks_part s) = part.novelData s"
  by (simp add: saveBookmarks_part_def)

lemma currentChapter_saveBookmarks_part [simp]:
  "part.currentChapter (saveBookmarks_part s) = part.currentChapter s"
  by (simp add: saveBookmarks_part_def)

lemma saveBookmarks_part_now [simp]:
  "part.bookmarks ((saveBookmarks_part s)\<lparr>now := \<tau>\<rparr>) = part.bookmarks s"
  "part.novelData ((saveBookmarks_part s)\<lparr>now := \<tau>\<rparr>) = part.novelData s"
  "part.currentChapter ((saveBookmarks_part s)\<lparr>now := \<tau>\<rparr>) = part.currentChapter s"
  by (simp_all add: saveBookmarks_part_def)












lemma bookmarks_saveBookmarks_reader [simp]:
  "reader.bookmarks (saveBookmarks_reader s) = reader.bookmarks s"
  "reader.novelData (saveBookmarks_reader s) = reader.novelData s"
  "reader.currentChapter (saveBookmarks_reader s) = reader.currentChapter s"
  by (simp_all add: saveBookmarks_reader_def)










subsection \<open>C1: the first selector that matches wins\<close>

lemma enumerate_eq_Nil [simp]: "enumerate n xs = [] \<longleftrightarrow> xs = []"
  by (cases xs) simp_all

lemma scan_part_first_match:
  "scan_part pf doc sels [] =
     (case first_match doc sels of
        None \<Rightarrow> []
      | Some sel \<Rightarrow> map (push_part pf) (enumerate 0 (querySelectorAll doc [sel])))"
  by (induction sels) (simp_all add: first_match_def Let_def)

lemma scan_reader_first_match:
  "scan_reader doc sels =
     (case first_match doc sels of
        None \<Rightarrow> []
      | Some sel \<Rightarrow> concat (map push_reader (enumerate 0 (querySelectorAll doc [sel]))))"
  by (induction sels) (simp_all add: first_match_def Let_def)









subsection \<open>C4: the fallback to the document body\<close>

lemma novelData_loadReadingProgress:
  "reader.novelData (loadReadingProgress L s) = reader.novelData s"
  by (auto simp: loadReadingProgress_def goToChapter_def displayChapter_reader_def
      restoreScrollPosition_reader_def Let_def split: option.splits sum.splits if_splits)

lemma novelData_processFile_reader:
  "reader.novelData (processFile_reader L doc s) = Some (parseNovelHTML doc)"
  by (auto simp: processFile_reader_def Let_def novelData_loadReadingProgress
      displayChapter_reader_def split: sum.splits if_splits)

lemma parseNovelHTML_nonempty:
  assumes "body_or_query doc = Some b"
  shows "novel_reader.chapters (parseNovelHTML doc) \<noteq> []"
  using assms by (simp add: parseNovelHTML_def Let_def)

lemma novelData_saveProgress [simp]: "part.novelData (saveProgress s) = part.novelData s"
  by (simp add: saveProgress_def split: option.splits)

lemma novelData_updateProgress [simp]: "part.novelData (updateProgress s) = part.novelData s"
  by (simp add: updateProgress_def Let_def)

lemma novelData_restoreScrollPosition_part [simp]:
  "part.novelData (restoreScrollPosition_part s) = part.novelData s"
  by (simp add: restoreScrollPosition_part_def setTimeout_def)

lemma novelData_displayChapter_part [simp]:
  "part.novelData (displayChapter_part L i s) = part.novelData s"
  by (simp add: displayChapter_part_def Let_def split: option.splits)

lemma novelData_showReaderInterface_part [simp]:
  "part.novelData (showReaderInterface_part s) = part.novelData s"
  by (simp add: showReaderInterface_part_def loadProgress_def split: option.splits)

lemma processFile_part_chapters:
  assumes "processFile_part pf L doc name s = Inr s'"
  shows "\<exists>nv. part.novelData s' = Some nv \<and> novel_part.chapters nv = extractChapters pf doc
           \<and> 1 \<le> length (novel_part.chapters nv)"
  using assms
  by (auto simp: processFile_part_def Let_def Suc_le_eq split: if_splits)

text \<open>
  C4. When no selector of \<open>CONFIG.SELECTORS\<close> matches an element of the document,
  \<open>extractChapters\<close> (part_000) and \<open>parseNovelHTML\<close> (reader.js) return exactly one
  chapter, whose content is the sanitized \<open>innerHTML\<close> of the document body. Every novel
  a successful load stores has at least one chapter: in part_000 \<open>processFile\<close> throws
  when there is none, in reader.js the body fallback provides one. The body is
  \<open>doc.body || doc.querySelector('body')\<close>; the HTML parser gives every document one, so
  the hypotheses that it exists hold for every parsed document.
\<close>

theorem C4_body_fallback:
  assumes "first_match doc SELECTORS = None"
    and "body_or_query doc = Some b"
    and "processFile_part pf L d name s = Inr s'"
    and "body_or_query d = Some b'"
  shows "extractChapters pf doc
           = [\<lparr>chapter_part.title = ''Chapter 1'',
               chapter_part.content = sanitizeContent_part pf (innerHTML b), element = b\<rparr>]
       \<and> novel_reader.chapters (parseNovelHTML doc)
           = [\<lparr>chapter_reader.id' = 1,
               chapter_reader.title =
                 (if trim (document.title doc) \<noteq> [] then trim (document.title doc)
                  else ''Novel Content''),
               chapter_reader.content = sanitizeContent_reader (innerHTML b)\<rparr>]
       \<and> (\<exists>nv. part.novelData s' = Some nv \<and> 1 \<le> length (novel_part.chapters nv))
       \<and> (\<exists>nv. reader.novelData (processFile_reader L d r) = Some nv
              \<and> 1 \<le> length (novel_reader.chapters nv))"
proof -
  have 1: "extractChapters pf doc
           = [\<lparr>chapter_part.title = ''Chapter 1'',
               chapter_part.content = sanitizeContent_part pf (innerHTML b), element = b\<rparr>]"
    using assms(1,2) by (simp add: extractChapters_def scan_part_first_match Let_def)
  have 2: "novel_reader.chapters (parseNovelHTML doc)
           = [\<lparr>chapter_reader.id' = 1,
               chapter_reader.title =
                 (if trim (document.title doc) \<noteq> [] then trim (document.title doc)
                  else ''Novel Content''),
               chapter_reader.content = sanitizeContent_reader (innerHTML b)\<rparr>]"
    using assms(1,2) by (simp add: parseNovelHTML_def scan_reader_first_match Let_def)
  from processFile_part_chapters [OF assms(3)]
  have 3: "\<exists>nv. part.novelData s' = Some nv \<and> 1 \<le> length (novel_part.chapters nv)" by blast
  from parseNovelHTML_nonempty [OF assms(4)]
  have 4: "\<exists>nv. reader.novelData (processFile_reader L d r) = Some nv
              \<and> 1 \<le> length (novel_reader.chapters nv)"
    by (simp add: novelData_processFile_reader Suc_le_eq)
  from 1 2 3 4 show ?thesis by blast
qed

lemma docPlain_no_match: "first_match docPlain SELECTORS = None"
  by (simp add: first_match_def SELECTORS_def querySelectorAll_def docPlain_def)

lemma docPlain_body: "body_or_query docPlain = Some (Element ''body'' [] [Text ''once upon a time''])"
  by (simp add: body_or_query_def body_def docPlain_def)

lemma docFoo_body: "body_or_query docFoo = Some (Element ''body'' []
          [section_of ''one'', section_of ''two'', section_of ''three'', section_of ''four'',
           section_of ''five''])"
  by (simp add: body_or_query_def body_def docFoo_def)

lemma processFile_part_docFoo:
  "\<exists>s'. processFile_part browser top_of_page docFoo ''foo.html'' part0 = Inr s'"
  by (simp add: processFile_part_def extractChapters_docFoo docFoo_parsererror chaptersFoo_part_def Let_def)

theorem C4_body_fallback_witness:
  "first_match docPlain SELECTORS = None
   \<and> body_or_query docPlain = Some (Element ''body'' [] [Text ''once upon a time''])
   \<and> (\<exists>s'. processFile_part browser top_of_page docFoo ''foo.html'' part0 = Inr s')
   \<and> body_or_query docFoo \<noteq> None
   \<and> extractChapters browser docPlain
       = [\<lparr>chapter_part.title = ''Chapter 1'', chapter_part.content = ''once upon a time'',
           element = Element ''body'' [] [Text ''once upon a time'']\<rparr>]
   \<and> novel_reader.chapters (parseNovelHTML docPlain)
       = [\<lparr>chapter_reader.id' = 1, chapter_reader.title = ''Plain'',
           chapter_reader.content = ''once upon a time''\<rparr>]"
proof -
  from processFile_part_docFoo obtain s' where
    l: "processFile_part browser top_of_page docFoo ''foo.html'' part0 = Inr s'" ..
  have t: "trim (document.title docPlain) = ''Plain''"
    by (simp add: docPlain_def trim_def is_ws_def)
  have s1: "sanitizeContent_part browser ''once upon a time'' = ''once upon a time''"
    by (simp add: sanitizeContent_part_def browser_def parse_plain_def remove_all_def
        dangerous_def escape_text_def)
  have s2: "sanitizeContent_reader ''once upon a time'' = ''once upon a time''"
    by (simp add: sanitizeContent_reader_def trim_def is_ws_def match_script_def
        starts_with_ci_def toLowerCase_char_def)
  have i: "innerHTML (Element ''body'' [] [Text ''once upon a time'']) = ''once upon a time''"
    by (simp add: raw_text_elements_def escape_text_def)
  from C4_body_fallback [OF docPlain_no_match docPlain_body l docFoo_body, of reader0]
  show ?thesis
    using docPlain_no_match docPlain_body processFile_part_docFoo docFoo_body
    by (simp add: t s1 s2 i del: innerHTML.simps)
qed

subsection \<open>C2: what the sanitizers remove\<close>













subsection \<open>C3: idempotence of the sanitizers\<close>




subsection \<open>C9: auto-advance and its timer\<close>

lemma timers_ok_cong:
  assumes "timers s' = timers s" "next_handle s' = next_handle s"
    "autoAdvanceTimeout s' = autoAdvanceTimeout s"
  shows "timers_ok s' = timers_ok s"
  using assms by (simp add: timers_ok_def pending_auto_def)





lemma timers_ok_no_auto:
  assumes "distinct (map handle (timers s))"
    and "list_all (\<lambda>u. handle u < next_handle s) (timers s)"
    and "pending_auto s = []"
  shows "timers_ok s"
  using assms by (simp add: timers_ok_def)


lemma timers_ok_saveProgress [simp]: "timers_ok (saveProgress s) = timers_ok s"
  by (rule timers_ok_cong) (simp_all add: saveProgress_def split: option.splits)

lemma timers_ok_updateProgress [simp]: "timers_ok (updateProgress s) = timers_ok s"
  by (rule timers_ok_cong) (simp_all add: updateProgress_def Let_def)




lemma pending_auto_displayChapter_part [simp]:
  "pending_auto (displayChapter_part L i s) = pending_auto s"
  by (simp add: displayChapter_part_def Let_def pending_auto_def saveProgress_def
      updateProgress_def restoreScrollPosition_part_def setTimeout_def split: option.splits)




















end
